theory Spec2Isabelle
  imports Complex_Main
begin

section \<open>JavaScript numbers\<close>

text \<open>
  A JavaScript number is an IEEE 754 double: a finite value, one of the two infinities, or
  NaN. A finite value is carried as the real number it denotes. Every arithmetic operation
  computes the exact real result and rounds it to the nearest double, ties to even; the
  tensors of the tensor library hold single-precision values, rounded the same way to 24
  bits. The sign of zero is not tracked: it could only show in the sign of a quotient by
  zero, and every divisor in this program that can be zero is a square root, a sum of
  squares starting from the literal 0, or an array length, which are all +0.
\<close>

datatype jsnum = Fin real | PInf | NInf | NaN

definition round_half_even :: "real \<Rightarrow> int" where
  "round_half_even x =
     (let f = \<lfloor>x\<rfloor>; d = x - of_int f
      in if d < 1 / 2 then f else if 1 / 2 < d then f + 1 else if even f then f else f + 1)"

text \<open>
  Rounding to a binary format of precision \<open>p\<close> whose smallest normal exponent is
  \<open>emin\<close> and whose values stay below \<open>2 powi emax\<close>: the exponent of the argument
  (not below \<open>emin\<close>, which gives the subnormal range) fixes the spacing of the
  representable values around it.
\<close>

definition round_binary :: "int \<Rightarrow> int \<Rightarrow> int \<Rightarrow> real \<Rightarrow> jsnum" where
  "round_binary p emin emax x =
     (if x = 0 then Fin 0
      else let e = max \<lfloor>log 2 \<bar>x\<bar>\<rfloor> emin;
               ulp = 2 powi (e - (p - 1));
               r = of_int (round_half_even (x / ulp)) * ulp
           in if 2 powi emax \<le> \<bar>r\<bar> then (if 0 < x then PInf else NInf) else Fin r)"

definition round_double :: "real \<Rightarrow> jsnum" where
  "round_double = round_binary 53 (- 1022) 1024"

definition round_float32 :: "real \<Rightarrow> jsnum" where
  "round_float32 = round_binary 24 (- 126) 128"

text \<open>A decimal literal of the source denotes the double nearest to it.\<close>

definition lit :: "real \<Rightarrow> jsnum" where
  "lit x = round_double x"

fun js_neg :: "jsnum \<Rightarrow> jsnum" where
  "js_neg (Fin a) = Fin (- a)"
| "js_neg PInf = NInf"
| "js_neg NInf = PInf"
| "js_neg NaN = NaN"

text \<open>The operators \<open>+\<close>, \<open>*\<close> and \<open>/\<close>, for a given rounding of finite results.\<close>

fun fl_add :: "(real \<Rightarrow> jsnum) \<Rightarrow> jsnum \<Rightarrow> jsnum \<Rightarrow> jsnum" where
  "fl_add rnd NaN y = NaN"
| "fl_add rnd x NaN = NaN"
| "fl_add rnd (Fin a) (Fin b) = rnd (a + b)"
| "fl_add rnd PInf NInf = NaN"
| "fl_add rnd NInf PInf = NaN"
| "fl_add rnd PInf y = PInf"
| "fl_add rnd NInf y = NInf"
| "fl_add rnd (Fin a) y = y"

fun fl_mul :: "(real \<Rightarrow> jsnum) \<Rightarrow> jsnum \<Rightarrow> jsnum \<Rightarrow> jsnum" where
  "fl_mul rnd NaN y = NaN"
| "fl_mul rnd x NaN = NaN"
| "fl_mul rnd (Fin a) (Fin b) = rnd (a * b)"
| "fl_mul rnd (Fin a) y = (if a = 0 then NaN else if 0 < a then y else js_neg y)"
| "fl_mul rnd x (Fin b) = (if b = 0 then NaN else if 0 < b then x else js_neg x)"
| "fl_mul rnd PInf y = y"
| "fl_mul rnd NInf y = js_neg y"

fun fl_div :: "(real \<Rightarrow> jsnum) \<Rightarrow> jsnum \<Rightarrow> jsnum \<Rightarrow> jsnum" where
  "fl_div rnd NaN y = NaN"
| "fl_div rnd x NaN = NaN"
| "fl_div rnd (Fin a) (Fin b) =
     (if b = 0 then (if a = 0 then NaN else if 0 < a then PInf else NInf) else rnd (a / b))"
| "fl_div rnd (Fin a) y = Fin 0"
| "fl_div rnd x (Fin b) = (if 0 \<le> b then x else js_neg x)"
| "fl_div rnd x y = NaN"

abbreviation js_add :: "jsnum \<Rightarrow> jsnum \<Rightarrow> jsnum" where
  "js_add \<equiv> fl_add round_double"

abbreviation js_mul :: "jsnum \<Rightarrow> jsnum \<Rightarrow> jsnum" where
  "js_mul \<equiv> fl_mul round_double"

abbreviation js_div :: "jsnum \<Rightarrow> jsnum \<Rightarrow> jsnum" where
  "js_div \<equiv> fl_div round_double"

definition js_sub :: "jsnum \<Rightarrow> jsnum \<Rightarrow> jsnum" where
  "js_sub x y = js_add x (js_neg y)"

text \<open>The comparison \<open>x < y\<close>; \<open>x > y\<close> is \<open>js_lt y x\<close>. NaN compares false.\<close>

fun js_lt :: "jsnum \<Rightarrow> jsnum \<Rightarrow> bool" where
  "js_lt NaN y = False"
| "js_lt x NaN = False"
| "js_lt (Fin a) (Fin b) = (a < b)"
| "js_lt NInf NInf = False"
| "js_lt NInf y = True"
| "js_lt x NInf = False"
| "js_lt PInf y = False"
| "js_lt x PInf = True"

definition js_gt :: "jsnum \<Rightarrow> jsnum \<Rightarrow> bool" where
  "js_gt x y = js_lt y x"

definition isNaN :: "jsnum \<Rightarrow> bool" where
  "isNaN x = (x = NaN)"

text \<open>Truthiness of a number, and \<open>x || d\<close>: zero and NaN are falsy.\<close>

definition truthy :: "jsnum \<Rightarrow> bool" where
  "truthy x = (x \<noteq> Fin 0 \<and> x \<noteq> NaN)"

definition js_or :: "jsnum \<Rightarrow> jsnum \<Rightarrow> jsnum" where
  "js_or x d = (if truthy x then x else d)"

text \<open>\<open>v || d\<close> where \<open>v\<close> may be \<open>undefined\<close> (an absent optional field).\<close>

definition or_default :: "jsnum option \<Rightarrow> jsnum \<Rightarrow> jsnum" where
  "or_default v d = (case v of None \<Rightarrow> d | Some x \<Rightarrow> js_or x d)"

text \<open>
  \<open>Math.pow(x, 2)\<close>, the only use of \<open>Math.pow\<close> in the program, is taken to be
  the correctly rounded square. The statements below rest on squares that are exact (of
  0, of small integers, of powers of two) and on a square being neither negative nor,
  for a number that is not NaN, NaN.
\<close>

definition Math_pow2 :: "jsnum \<Rightarrow> jsnum" where
  "Math_pow2 x = js_mul x x"

fun Math_sqrt :: "jsnum \<Rightarrow> jsnum" where
  "Math_sqrt (Fin a) = (if a < 0 then NaN else round_double (sqrt a))"
| "Math_sqrt PInf = PInf"
| "Math_sqrt NInf = NaN"
| "Math_sqrt NaN = NaN"

fun Math_abs :: "jsnum \<Rightarrow> jsnum" where
  "Math_abs (Fin a) = Fin \<bar>a\<bar>"
| "Math_abs PInf = PInf"
| "Math_abs NInf = PInf"
| "Math_abs NaN = NaN"

fun Math_floor :: "jsnum \<Rightarrow> jsnum" where
  "Math_floor (Fin a) = Fin (of_int \<lfloor>a\<rfloor>)"
| "Math_floor x = x"

fun Math_round :: "jsnum \<Rightarrow> jsnum" where
  "Math_round (Fin a) = Fin (of_int \<lfloor>a + 1 / 2\<rfloor>)"
| "Math_round x = x"

definition Math_max :: "jsnum \<Rightarrow> jsnum \<Rightarrow> jsnum" where
  "Math_max x y = (if x = NaN \<or> y = NaN then NaN else if js_lt x y then y else x)"

definition Math_min :: "jsnum \<Rightarrow> jsnum \<Rightarrow> jsnum" where
  "Math_min x y = (if x = NaN \<or> y = NaN then NaN else if js_lt y x then y else x)"

section \<open>Arrays\<close>

text \<open>
  The length of an array as a number; array lengths are below \<open>2 ^ 32\<close>, so the
  conversion is exact.
\<close>

definition js_length :: "'a list \<Rightarrow> jsnum" where
  "js_length xs = Fin (real (length xs))"

text \<open>
  \<open>xs[i]\<close> read as a number: out of range the read gives \<open>undefined\<close>, which every
  arithmetic operator converts to NaN. \<open>elem\<close> keeps \<open>undefined\<close> apart, as
  \<open>None\<close>, where the value is handed on unread.
\<close>

definition num_at :: "jsnum list \<Rightarrow> nat \<Rightarrow> jsnum" where
  "num_at xs i = (if i < length xs then xs ! i else NaN)"

definition elem :: "'a list \<Rightarrow> nat \<Rightarrow> 'a option" where
  "elem xs i = (if i < length xs then Some (xs ! i) else None)"

text \<open>\<open>xs.map((v, i) => f(v, i))\<close> and \<open>xs.reduce((acc, v, i) => f(acc, v, i), init)\<close>.\<close>

fun mapi_from :: "nat \<Rightarrow> ('a \<Rightarrow> nat \<Rightarrow> 'b) \<Rightarrow> 'a list \<Rightarrow> 'b list" where
  "mapi_from i f [] = []"
| "mapi_from i f (v # vs) = f v i # mapi_from (Suc i) f vs"

definition mapi :: "('a \<Rightarrow> nat \<Rightarrow> 'b) \<Rightarrow> 'a list \<Rightarrow> 'b list" where
  "mapi f xs = mapi_from 0 f xs"

fun reduce_from :: "nat \<Rightarrow> ('b \<Rightarrow> 'a \<Rightarrow> nat \<Rightarrow> 'b) \<Rightarrow> 'b \<Rightarrow> 'a list \<Rightarrow> 'b" where
  "reduce_from i f acc [] = acc"
| "reduce_from i f acc (v # vs) = reduce_from (Suc i) f (f acc v i) vs"

definition reduce :: "('b \<Rightarrow> 'a \<Rightarrow> nat \<Rightarrow> 'b) \<Rightarrow> 'b \<Rightarrow> 'a list \<Rightarrow> 'b" where
  "reduce f init xs = reduce_from 0 f init xs"

text \<open>
  \<open>xs.slice(start, end)\<close>: an index is truncated to an integer (NaN counts as 0), a
  negative index counts from the end, and both ends are clamped to the array.
\<close>

definition rel_index :: "nat \<Rightarrow> jsnum \<Rightarrow> nat" where
  "rel_index len k =
     (case k of
        NaN \<Rightarrow> 0
      | PInf \<Rightarrow> len
      | NInf \<Rightarrow> 0
      | Fin r \<Rightarrow>
          (let i = (if r < 0 then \<lceil>r\<rceil> else \<lfloor>r\<rfloor>)
           in if i < 0 then nat (max (int len + i) 0) else nat (min i (int len))))"

definition slice :: "'a list \<Rightarrow> jsnum \<Rightarrow> jsnum \<Rightarrow> 'a list" where
  "slice xs start stop =
     (let a = rel_index (length xs) start; b = rel_index (length xs) stop
      in take (b - a) (drop a xs))"

definition slice_from :: "'a list \<Rightarrow> jsnum \<Rightarrow> 'a list" where
  "slice_from xs start = drop (rel_index (length xs) start) xs"

section \<open>Errors, rows and the libraries\<close>

text \<open>
  The program defines no error type of its own. What can end a call early is a
  \<open>TypeError\<close> of the language (a method called on \<open>undefined\<close>) or an exception
  thrown inside one of the libraries. \<open>ValidationError\<close> and \<open>ConfigurationError\<close>
  are the two errors the specification names; no definition below produces them.
\<close>

datatype error = TypeError | LibraryError | ValidationError | ConfigurationError

fun map_err :: "('a \<Rightarrow> error + 'b) \<Rightarrow> 'a list \<Rightarrow> error + 'b list" where
  "map_err f [] = Inr []"
| "map_err f (x # xs) =
     (case f x of
        Inl e \<Rightarrow> Inl e
      | Inr v \<Rightarrow> (case map_err f xs of Inl e \<Rightarrow> Inl e | Inr vs \<Rightarrow> Inr (v # vs)))"

text \<open>
  A row is an object with string keys; a cell holds a number or a text, and a key that is
  absent reads as \<open>undefined\<close>.
\<close>

datatype cell = Num jsnum | Str string

type_synonym row = "string \<rightharpoonup> cell"

record rf_options =
  nEstimators :: jsnum
  maxFeatures :: jsnum
  seed :: jsnum
  replacement :: bool
  maxDepth :: jsnum
  minNumSamples :: jsnum

datatype layer =
    Dense (inputShape: "jsnum option") (units: jsnum) (activation: "string option")
      (kernelInitializer: "string option") (l2: "jsnum option")
  | Dropout (rate: jsnum)

record nn_options =
  layers :: "layer list"
  learningRate_opt :: jsnum
  epochs_opt :: jsnum
  batchSize_opt :: jsnum
  validationSplit :: jsnum

text \<open>
  What the program takes from outside its own source: the parsing of a text by the
  built-in \<open>parseFloat\<close>, and the three regression libraries. They are parameters of
  the model. \<open>SimpleLinearRegression xs ys\<close> is the constructor, which returns the
  fitted model's \<open>predict\<close>; the forest and the network are each one call from the
  configuration, the training partition and the test rows to the raw predictions.
\<close>

record libs =
  parseText :: "string \<Rightarrow> jsnum"
  SimpleLinearRegression ::
    "jsnum option list \<Rightarrow> jsnum list \<Rightarrow> error + (jsnum option \<Rightarrow> error + jsnum)"
  RFRegression ::
    "rf_options \<Rightarrow> jsnum list list \<Rightarrow> jsnum list \<Rightarrow> jsnum list list \<Rightarrow> error + jsnum list"
  sequential ::
    "nn_options \<Rightarrow> jsnum list list \<Rightarrow> jsnum list \<Rightarrow> jsnum list list \<Rightarrow> error + jsnum list"

text \<open>\<open>parseFloat(row[f])\<close>: a number is read back as itself, \<open>undefined\<close> gives NaN.\<close>

definition parseFloat :: "libs \<Rightarrow> cell option \<Rightarrow> jsnum" where
  "parseFloat L c =
     (case c of None \<Rightarrow> NaN | Some (Num n) \<Rightarrow> n | Some (Str s) \<Rightarrow> parseText L s)"

section \<open>The training engine\<close>

record ModelMetrics =
  mse :: jsnum
  rmse :: jsnum
  r2 :: jsnum
  mae :: jsnum

record TrainingResult =
  modelType :: string
  metrics :: ModelMetrics
  predictions :: "jsnum list"
  actualValues :: "jsnum list"

record Hyperparameters =
  epochs :: "jsnum option"
  batchSize :: "jsnum option"
  learningRate :: "jsnum option"
  hiddenLayers :: "jsnum list option"
  dropout :: "jsnum option"
  treeDepth :: "jsnum option"
  numTrees :: "jsnum option"

definition mean :: "jsnum list \<Rightarrow> jsnum" where
  "mean arr = js_div (reduce (\<lambda>sum val i. js_add sum val) (Fin 0) arr) (js_length arr)"

definition std :: "jsnum list \<Rightarrow> jsnum" where
  "std arr =
     (let m = mean arr;
          variance =
            js_div (reduce (\<lambda>sum val i. js_add sum (Math_pow2 (js_sub val m))) (Fin 0) arr)
              (js_length arr)
      in Math_sqrt variance)"

text \<open>The pieces of \<open>calculateMetrics\<close>, each as the source computes it.\<close>

definition ssTotal :: "jsnum list \<Rightarrow> jsnum" where
  "ssTotal actual =
     (let mean = js_div (reduce (\<lambda>sum val i. js_add sum val) (Fin 0) actual) (js_length actual)
      in reduce (\<lambda>sum val i. js_add sum (Math_pow2 (js_sub val mean))) (Fin 0) actual)"

definition ssResidual :: "jsnum list \<Rightarrow> jsnum list \<Rightarrow> jsnum" where
  "ssResidual actual predicted =
     reduce (\<lambda>sum val i. js_add sum (Math_pow2 (js_sub val (num_at predicted i)))) (Fin 0) actual"

definition calculateMetrics :: "jsnum list \<Rightarrow> jsnum list \<Rightarrow> ModelMetrics" where
  "calculateMetrics actual predicted =
     (let n = js_length actual;
          mse =
            js_div
              (reduce (\<lambda>sum val i. js_add sum (Math_pow2 (js_sub val (num_at predicted i)))) (Fin 0)
                 actual) n;
          rmse = Math_sqrt mse;
          r2 =
            Math_max (Fin 0)
              (Math_min (Fin 1)
                 (js_sub (Fin 1) (js_div (ssResidual actual predicted) (ssTotal actual))));
          mae =
            js_div (reduce (\<lambda>sum val i. js_add sum (Math_abs (js_sub val (num_at predicted i)))) (Fin 0)
                 actual) n
      in \<lparr>mse = mse, rmse = rmse, r2 = r2, mae = mae\<rparr>)"

text \<open>Data preprocessing: a cell that does not parse to a number counts as 0.\<close>

definition coerce :: "libs \<Rightarrow> cell option \<Rightarrow> jsnum" where
  "coerce L c = (let val = parseFloat L c in if isNaN val then Fin 0 else val)"

definition X_of :: "libs \<Rightarrow> row list \<Rightarrow> string list \<Rightarrow> jsnum list list" where
  "X_of L data features = map (\<lambda>row. map (\<lambda>f. coerce L (row f)) features) data"

definition y_of :: "libs \<Rightarrow> row list \<Rightarrow> string \<Rightarrow> jsnum list" where
  "y_of L data target = map (\<lambda>row. coerce L (row target)) data"

text \<open>
  The column statistics iterate over \<open>X[0]\<close>; with no rows \<open>X[0]\<close> is \<open>undefined\<close>
  and \<open>X[0].map\<close> throws.
\<close>

definition X_mean :: "jsnum list list \<Rightarrow> error + jsnum list" where
  "X_mean X =
     (case X of
        [] \<Rightarrow> Inl TypeError
      | X0 # rest \<Rightarrow> Inr (mapi (\<lambda>v col. mean (map (\<lambda>row. num_at row col) X)) X0))"

definition X_std :: "jsnum list list \<Rightarrow> error + jsnum list" where
  "X_std X =
     (case X of
        [] \<Rightarrow> Inl TypeError
      | X0 # rest \<Rightarrow> Inr (mapi (\<lambda>v col. std (map (\<lambda>row. num_at row col) X)) X0))"

definition X_normalized :: "jsnum list list \<Rightarrow> jsnum list \<Rightarrow> jsnum list \<Rightarrow> jsnum list list" where
  "X_normalized X Xm Xs =
     map (\<lambda>row. mapi (\<lambda>val i. js_div (js_sub val (num_at Xm i)) (js_or (num_at Xs i) (Fin 1))) row) X"

definition y_normalized :: "jsnum list \<Rightarrow> jsnum list" where
  "y_normalized y = map (\<lambda>val. js_div (js_sub val (mean y)) (js_or (std y) (Fin 1))) y"

definition splitIndex :: "'a list \<Rightarrow> jsnum \<Rightarrow> jsnum" where
  "splitIndex data splitRatio = Math_floor (js_mul (js_length data) splitRatio)"

text \<open>The \<open>switch\<close> over the model type; it has no \<open>default\<close> case.\<close>

definition linear_regression ::
  "libs \<Rightarrow> jsnum list list \<Rightarrow> jsnum list \<Rightarrow> jsnum list list \<Rightarrow> jsnum \<Rightarrow> jsnum \<Rightarrow> error + jsnum list"
where
  "linear_regression L X_train y_train X_test y_sd y_mn =
     (case SimpleLinearRegression L (map (\<lambda>x. elem x 0) X_train) y_train of
        Inl e \<Rightarrow> Inl e
      | Inr predict \<Rightarrow>
          map_err
            (\<lambda>x. case predict (elem x 0) of
                   Inl e \<Rightarrow> Inl e
                 | Inr p \<Rightarrow> Inr (js_add (js_mul p y_sd) y_mn))
            X_test)"

definition random_forest ::
  "libs \<Rightarrow> string list \<Rightarrow> Hyperparameters \<Rightarrow> jsnum list list \<Rightarrow> jsnum list \<Rightarrow> jsnum list list \<Rightarrow>
     jsnum \<Rightarrow> jsnum \<Rightarrow> error + jsnum list"
where
  "random_forest L features hyperparameters X_train y_train X_test y_sd y_mn =
     (case RFRegression L
             \<lparr>nEstimators = or_default (numTrees hyperparameters) (Fin 100),
              maxFeatures = Math_floor (Math_sqrt (js_length features)),
              seed = Fin 42,
              replacement = True,
              maxDepth = or_default (treeDepth hyperparameters) (Fin 10),
              minNumSamples = Fin 2\<rparr>
             X_train y_train X_test of
        Inl e \<Rightarrow> Inl e
      | Inr raw \<Rightarrow> Inr (map (\<lambda>pred. js_add (js_mul pred y_sd) y_mn) raw))"

definition neural_network ::
  "libs \<Rightarrow> string list \<Rightarrow> Hyperparameters \<Rightarrow> jsnum list list \<Rightarrow> jsnum list \<Rightarrow> jsnum list list \<Rightarrow>
     jsnum \<Rightarrow> jsnum \<Rightarrow> error + jsnum list"
where
  "neural_network L features hyperparameters X_train y_train X_test y_sd y_mn =
     (let first =
            Dense (Some (js_length features))
              (case hiddenLayers hyperparameters of
                 None \<Rightarrow> Fin 64
               | Some hl \<Rightarrow> or_default (elem hl 0) (Fin 64))
              (Some ''relu'') None (Some (lit (1 / 100)));
          hidden =
            concat
              (map (\<lambda>units.
                      Dense None units (Some ''relu'') (Some ''heNormal'') (Some (lit (1 / 100)))
                      # (case dropout hyperparameters of
                           None \<Rightarrow> []
                         | Some d \<Rightarrow> if truthy d then [Dropout d] else []))
                 (case hiddenLayers hyperparameters of
                    None \<Rightarrow> [Fin 32]
                  | Some hl \<Rightarrow> slice_from hl (Fin 1)));
          output = Dense None (Fin 1) None None None
      in case sequential L
                \<lparr>layers = first # hidden @ [output],
                 learningRate_opt = or_default (learningRate hyperparameters) (lit (1 / 1000)),
                 epochs_opt = or_default (epochs hyperparameters) (Fin 50),
                 batchSize_opt = or_default (batchSize hyperparameters) (Fin 32),
                 validationSplit = lit (2 / 10)\<rparr>
                X_train y_train X_test of
           Inl e \<Rightarrow> Inl e
         | Inr rawPredictions \<Rightarrow>
             Inr (map (\<lambda>pred. js_add (js_mul pred y_sd) y_mn) rawPredictions))"

definition predict_switch ::
  "libs \<Rightarrow> string \<Rightarrow> string list \<Rightarrow> Hyperparameters \<Rightarrow> jsnum list list \<Rightarrow> jsnum list \<Rightarrow>
     jsnum list list \<Rightarrow> jsnum \<Rightarrow> jsnum \<Rightarrow> error + jsnum list"
where
  "predict_switch L mt features hyperparameters X_train y_train X_test y_sd y_mn =
     (if mt = ''linear-regression'' then linear_regression L X_train y_train X_test y_sd y_mn
      else if mt = ''random-forest'' then
        random_forest L features hyperparameters X_train y_train X_test y_sd y_mn
      else if mt = ''neural-network'' then
        neural_network L features hyperparameters X_train y_train X_test y_sd y_mn
      else Inr [])"

text \<open>The split by position, at the index \<open>k\<close> that \<open>splitIndex\<close> computed.\<close>

record Split =
  X_train :: "jsnum list list"
  y_train :: "jsnum list"
  X_test :: "jsnum list list"
  y_test :: "jsnum list"

definition split_data :: "jsnum list list \<Rightarrow> jsnum list \<Rightarrow> jsnum list \<Rightarrow> jsnum \<Rightarrow> Split" where
  "split_data Xn yn y k =
     \<lparr>X_train = slice Xn (Fin 0) k,
      y_train = slice yn (Fin 0) k,
      X_test = slice_from Xn k,
      y_test = slice_from y k\<rparr>"

definition trainModel ::
  "libs \<Rightarrow> row list \<Rightarrow> string \<Rightarrow> string list \<Rightarrow> string \<Rightarrow> jsnum \<Rightarrow> Hyperparameters \<Rightarrow>
     error + TrainingResult"
where
  "trainModel L data target features mt splitRatio hyperparameters =
     (let X = X_of L data features;
          y = y_of L data target
      in case X_mean X of
           Inl e \<Rightarrow> Inl e
         | Inr Xm \<Rightarrow>
             (case X_std X of
                Inl e \<Rightarrow> Inl e
              | Inr Xs \<Rightarrow>
                  (let s = split_data (X_normalized X Xm Xs) (y_normalized y) y
                             (splitIndex data splitRatio)
                   in case predict_switch L mt features hyperparameters (X_train s) (y_train s)
                             (X_test s) (std y) (mean y) of
                        Inl e \<Rightarrow> Inl e
                      | Inr preds \<Rightarrow>
                          Inr \<lparr>modelType = mt,
                               metrics = calculateMetrics (y_test s) preds,
                               predictions = preds,
                               actualValues = y_test s\<rparr>)))"

section \<open>The advisor\<close>

text \<open>
  The tensor library, as far as the advisor uses it. A tensor holds single-precision
  values; \<open>tensor2d\<close> rejects an array in which it finds no second dimension, which is
  the empty array here, every row having one cell per feature. Products and sums inside
  the library are single-precision too, accumulated in index order. \<open>tf_dot_transpose
  A B\<close> is \<open>A.dot(B.transpose())\<close> and \<open>tf_pow2 A\<close> is \<open>A.pow(2)\<close>; reading a
  tensor back with \<open>array()\<close> gives its values as they are.
\<close>

definition to_float32 :: "jsnum \<Rightarrow> jsnum" where
  "to_float32 x = (case x of Fin a \<Rightarrow> round_float32 a | PInf \<Rightarrow> PInf | NInf \<Rightarrow> NInf | NaN \<Rightarrow> NaN)"

abbreviation f32_add :: "jsnum \<Rightarrow> jsnum \<Rightarrow> jsnum" where
  "f32_add \<equiv> fl_add round_float32"

abbreviation f32_mul :: "jsnum \<Rightarrow> jsnum \<Rightarrow> jsnum" where
  "f32_mul \<equiv> fl_mul round_float32"

definition tensor2d :: "jsnum list list \<Rightarrow> error + jsnum list list" where
  "tensor2d vals = (if vals = [] then Inl LibraryError else Inr (map (map to_float32) vals))"

definition tensor1d :: "jsnum list \<Rightarrow> jsnum list" where
  "tensor1d vals = map to_float32 vals"

definition tf_pow2 :: "jsnum list list \<Rightarrow> jsnum list list" where
  "tf_pow2 A = map (map (\<lambda>v. f32_mul v v)) A"

definition tf_inner :: "jsnum list \<Rightarrow> jsnum list \<Rightarrow> jsnum" where
  "tf_inner a b = reduce (\<lambda>sum v k. f32_add sum (f32_mul v (num_at b k))) (Fin 0) a"

definition tf_dot_transpose :: "jsnum list list \<Rightarrow> jsnum list list \<Rightarrow> jsnum list list" where
  "tf_dot_transpose A B = map (\<lambda>a. map (\<lambda>b. tf_inner a b) B) A"

record AIModelSuggestion =
  suggestion_modelType :: string
  confidence :: jsnum
  reasoning :: string
  suggestion_hyperparameters :: Hyperparameters

text \<open>
  The record leaves out \<open>suggestedFeatures\<close>: it is the feature names sorted by a
  comparator that subtracts importances, and the order a sort gives when such a
  comparator returns NaN is left to the implementation. The importances themselves are
  \<open>calculateFeatureImportance\<close> below.
\<close>

definition pearsonCorrelation :: "jsnum list \<Rightarrow> jsnum list \<Rightarrow> jsnum" where
  "pearsonCorrelation x y =
     (let meanX = js_div (reduce (\<lambda>a b i. js_add a b) (Fin 0) x) (js_length x);
          meanY = js_div (reduce (\<lambda>a b i. js_add a b) (Fin 0) y) (js_length y);
          covXY =
            reduce (\<lambda>sum xi i. js_add sum (js_mul (js_sub xi meanX) (js_sub (num_at y i) meanY)))
              (Fin 0) x;
          varX = reduce (\<lambda>sum xi i. js_add sum (Math_pow2 (js_sub xi meanX))) (Fin 0) x;
          varY = reduce (\<lambda>sum yi i. js_add sum (Math_pow2 (js_sub yi meanY))) (Fin 0) y
      in js_div covXY (Math_sqrt (js_mul varX varY)))"

text \<open>The fields \<open>mean\<close> and \<open>max\<close> of the object \<open>calculateCorrelations\<close> returns.\<close>

record Correlations =
  corr_mean :: jsnum
  corr_max :: jsnum

definition calculateCorrelations :: "jsnum list list \<Rightarrow> jsnum list \<Rightarrow> error + Correlations" where
  "calculateCorrelations X y =
     (case X of
        [] \<Rightarrow> Inl TypeError
      | f0 # rest \<Rightarrow>
          (let correlations =
                 mapi (\<lambda>v i. pearsonCorrelation (map (\<lambda>row. num_at row i) X) y) f0
           in Inr \<lparr>corr_mean =
                     js_div (reduce (\<lambda>a b i. js_add a b) (Fin 0) correlations)
                       (js_length correlations),
                   corr_max = foldl Math_max NInf correlations\<rparr>))"

definition checkNonLinearity :: "jsnum list list \<Rightarrow> jsnum list \<Rightarrow> jsnum" where
  "checkNonLinearity X y =
     (let linear = tf_dot_transpose X X;
          squared = tf_dot_transpose (tf_pow2 X) X;
          linearCorr = pearsonCorrelation (concat linear) y;
          squaredCorr = pearsonCorrelation (concat squared) y
      in Math_abs (js_sub squaredCorr linearCorr))"

definition calculateFeatureImportance :: "jsnum list list \<Rightarrow> jsnum list \<Rightarrow> error + jsnum list" where
  "calculateFeatureImportance X y =
     (case X of
        [] \<Rightarrow> Inl TypeError
      | X0 # rest \<Rightarrow>
          Inr (mapi (\<lambda>v i. Math_abs (pearsonCorrelation (map (\<lambda>row. num_at row i) X) y)) X0))"

definition no_hyperparameters :: Hyperparameters where
  "no_hyperparameters =
     \<lparr>epochs = None, batchSize = None, learningRate = None, hiddenLayers = None,
      dropout = None, treeDepth = None, numTrees = None\<rparr>"

definition getHyperparameters :: "string \<Rightarrow> jsnum \<Rightarrow> jsnum \<Rightarrow> Hyperparameters" where
  "getHyperparameters mt complexity nonLinearity =
     (if mt = ''neural-network'' then
        no_hyperparameters
          \<lparr>epochs := Some (Math_min (Fin 100) (js_add (Fin 50) (js_mul complexity (Fin 10)))),
           batchSize := Some (Fin 32),
           learningRate :=
             Some (if js_gt nonLinearity (lit (5 / 10)) then lit (1 / 1000) else lit (1 / 100)),
           hiddenLayers :=
             Some [Math_round (js_mul complexity (Fin 8)), Math_round (js_mul complexity (Fin 4))],
           dropout :=
             Some (if js_gt nonLinearity (lit (5 / 10)) then lit (3 / 10) else lit (1 / 10))\<rparr>
      else if mt = ''random-forest'' then
        no_hyperparameters
          \<lparr>treeDepth :=
             Some (Math_min (Fin 20) (js_add (Fin 10) (Math_round (js_div complexity (Fin 2))))),
           numTrees := Some (Math_min (Fin 200) (js_add (Fin 100) (js_mul complexity (Fin 10))))\<rparr>
      else no_hyperparameters)"

text \<open>The decision logic for the model selection: the first branch that matches wins.\<close>

definition select_model :: "jsnum \<Rightarrow> jsnum \<Rightarrow> jsnum \<Rightarrow> string \<times> jsnum \<times> string" where
  "select_model nonLinearity correlations_mean complexity =
     (if js_lt nonLinearity (lit (3 / 10)) \<and> js_gt correlations_mean (lit (7 / 10)) then
        (''linear-regression'', lit (8 / 10),
         ''Strong linear correlations detected with low non-linearity'')
      else if js_gt complexity (Fin 5) \<or> js_gt nonLinearity (lit (7 / 10)) then
        (''neural-network'', lit (75 / 100),
         ''Complex relationships detected, suggesting deep learning approach'')
      else
        (''random-forest'', lit (85 / 100),
         ''Moderate complexity with potential non-linear relationships''))"

definition getModelSuggestions ::
  "libs \<Rightarrow> row list \<Rightarrow> string list \<Rightarrow> string \<Rightarrow> error + AIModelSuggestion"
where
  "getModelSuggestions L data features target =
     (let X = map (\<lambda>row. map (\<lambda>f. js_or (parseFloat L (row f)) (Fin 0)) features) data;
          y = map (\<lambda>row. js_or (parseFloat L (row target)) (Fin 0)) data
      in case tensor2d X of
           Inl e \<Rightarrow> Inl e
         | Inr tensorX \<Rightarrow>
             (let tensorY = tensor1d y
              in case calculateCorrelations tensorX tensorY of
                   Inl e \<Rightarrow> Inl e
                 | Inr correlations \<Rightarrow>
                     (let nonLinearity = checkNonLinearity tensorX tensorY;
                          complexity = js_length features;
                          (mt, conf, why) =
                            select_model nonLinearity (corr_mean correlations) complexity
                      in case calculateFeatureImportance X y of
                           Inl e \<Rightarrow> Inl e
                         | Inr featureImportance \<Rightarrow>
                             Inr \<lparr>suggestion_modelType = mt,
                                  confidence = conf,
                                  reasoning = why,
                                  suggestion_hyperparameters =
                                    getHyperparameters mt complexity nonLinearity\<rparr>)))"

section \<open>Inputs and libraries for the statements\<close>

text \<open>A finite number, and a number that is neither negative nor NaN.\<close>

fun is_finite :: "jsnum \<Rightarrow> bool" where
  "is_finite (Fin a) = True"
| "is_finite x = False"

fun nonneg_num :: "jsnum \<Rightarrow> bool" where
  "nonneg_num (Fin a) = (0 \<le> a)"
| "nonneg_num PInf = True"
| "nonneg_num x = False"


text \<open>
  Stand-ins for the libraries at concrete inputs: \<open>zero_libs\<close> predicts 0 for every test
  row, which is the mean of the target on the normalised scale, and \<open>failing_libs\<close>
  throws in every backend. Neither parses any text.
\<close>

definition zero_libs :: libs where
  "zero_libs =
     \<lparr>parseText = (\<lambda>s. NaN),
      SimpleLinearRegression = (\<lambda>xs ys. Inr (\<lambda>x. Inr (Fin 0))),
      RFRegression = (\<lambda>opts Xtr ytr Xte. Inr (map (\<lambda>x. Fin 0) Xte)),
      sequential = (\<lambda>opts Xtr ytr Xte. Inr (map (\<lambda>x. Fin 0) Xte))\<rparr>"



text \<open>
  A column of identical finite values whose mean is computed exactly, that is, whose
  computed mean is the common value.
\<close>

definition constant_exact :: "jsnum list \<Rightarrow> bool" where
  "constant_exact xs =
     (case xs of
        [] \<Rightarrow> False
      | v # rest \<Rightarrow> is_finite v \<and> list_all (\<lambda>w. w = v) xs \<and> mean xs = v)"

text \<open>A row with the two numeric cells \<open>x\<close> and \<open>y\<close>.\<close>

definition xy_row :: "jsnum \<Rightarrow> jsnum \<Rightarrow> row" where
  "xy_row a b = [''x'' \<mapsto> Num a, ''y'' \<mapsto> Num b]"

text \<open>
  The datasets of the examples: two and four rows whose columns have an integer mean and
  the deviation 1; three rows whose \<open>x\<close> is the constant \<open>0.1\<close>; three rows whose
  \<open>y\<close> falls as \<open>x\<close> rises.
\<close>

definition two_rows :: "row list" where
  "two_rows = [xy_row (Fin 1) (Fin 2), xy_row (Fin 3) (Fin 4)]"

definition four_rows :: "row list" where
  "four_rows =
     [xy_row (Fin 1) (Fin 2), xy_row (Fin 3) (Fin 4), xy_row (Fin 1) (Fin 2),
      xy_row (Fin 3) (Fin 4)]"

definition tenth_rows :: "row list" where
  "tenth_rows =
     [xy_row (lit (1 / 10)) (Fin 1), xy_row (lit (1 / 10)) (Fin 2),
      xy_row (lit (1 / 10)) (Fin 3)]"

definition falling_rows :: "row list" where
  "falling_rows = [xy_row (Fin 1) (Fin 3), xy_row (Fin 2) (Fin 2), xy_row (Fin 3) (Fin 1)]"

section \<open>Rounding: the values that are exact\<close>

lemma floor_log2_eqI:
  assumes "2 powi e \<le> x" "x < 2 powi (e + 1)"
  shows "\<lfloor>log 2 x\<rfloor> = e"
proof -
  have pos: "0 < x" using assms(1) zero_less_power_int[of "2::real" e] by linarith
  have a: "(2::real) powr (of_int e) = 2 powi e"
    by (simp add: powr_real_of_int power_int_def power_inverse del: inverse_eq_divide_numeral)
  have b: "(2::real) powr (of_int e + 1) = 2 powi (e + 1)"
    using powr_real_of_int[of "2::real" "e + 1"]
    by (simp add: power_int_def power_inverse del: inverse_eq_divide_numeral)
  show ?thesis
    using assms pos by (simp add: floor_log_eq_powr_iff a b)
qed

lemma round_half_even_of_int: "round_half_even (of_int k) = k"
  by (simp add: round_half_even_def)

lemma round_binary_eqI:
  assumes "2 powi e0 \<le> \<bar>x\<bar>" "\<bar>x\<bar> < 2 powi (e0 + 1)"
    and "e = max e0 emin"
    and "round_half_even (x / 2 powi (e - (p - 1))) = m"
    and "\<bar>of_int m * 2 powi (e - (p - 1))\<bar> < (2::real) powi emax"
  shows "round_binary p emin emax x = Fin (of_int m * 2 powi (e - (p - 1)))"
proof -
  have "0 < \<bar>x\<bar>" using assms(1) zero_less_power_int[of "2::real" e0] by linarith
  then have nz: "x \<noteq> 0" by simp
  have "\<lfloor>log 2 \<bar>x\<bar>\<rfloor> = e0" using assms(1,2) by (rule floor_log2_eqI)
  then show ?thesis using nz assms(3,4,5)
    by (simp add: round_binary_def Let_def)
qed

lemma round_binary_of_int:
  assumes k: "\<bar>k\<bar> < 2 ^ nat p" and p: "1 \<le> p" "emin \<le> 0" "p \<le> emax"
  shows "round_binary p emin emax (of_int k) = Fin (of_int k)"
proof (cases "k = 0")
  case True
  then show ?thesis by (simp add: round_binary_def)
next
  case False
  define x :: real where "x = of_int k"
  define e0 where "e0 = \<lfloor>log 2 \<bar>x\<bar>\<rfloor>"
  have x1: "1 \<le> \<bar>x\<bar>" using False by (simp add: x_def flip: of_int_abs)
  have xp: "\<bar>x\<bar> < 2 ^ nat p"
    using k unfolding x_def by (metis of_int_abs of_int_less_iff of_int_numeral of_int_power)
  have e0_ge: "0 \<le> e0" using x1 by (simp add: e0_def)
  have "log 2 \<bar>x\<bar> < of_int p"
  proof -
    have "log 2 \<bar>x\<bar> < real (nat p)" using x1 xp by (simp add: log_less_iff powr_realpow)
    also have "\<dots> = of_int p" using p by simp
    finally show ?thesis .
  qed
  then have e0_lt: "e0 < p" by (simp add: e0_def floor_less_iff)
  define n where "n = nat (p - 1 - e0)"
  define u :: real where "u = 2 powi (e0 - (p - 1))"
  have ulp: "u = 1 / 2 ^ n"
    using e0_lt by (simp add: u_def power_int_def n_def power_inverse field_simps)
  have "x / u = of_int (k * 2 ^ n)" by (simp add: x_def ulp)
  then have rh: "round_half_even (x / u) = k * 2 ^ n"
    by (simp only: round_half_even_of_int)
  have r: "of_int (k * 2 ^ n) * u = x" by (simp add: x_def ulp)
  have "(2::real) ^ nat p \<le> 2 powi emax"
    using p by (simp add: power_int_def power_increasing nat_le_iff)
  then have fin: "\<not> 2 powi emax \<le> \<bar>x\<bar>" using xp by linarith
  have mx: "max e0 emin = e0" using e0_ge p by simp
  have nz: "x \<noteq> 0" using x1 by auto
  have "round_binary p emin emax x =
          (if 2 powi emax \<le> \<bar>of_int (round_half_even (x / u)) * u\<bar>
           then (if 0 < x then PInf else NInf)
           else Fin (of_int (round_half_even (x / u)) * u))"
    using nz by (simp only: round_binary_def Let_def e0_def[symmetric] mx u_def if_False)
  also have "\<dots> = Fin x" using fin by (simp only: rh r if_False)
  finally show ?thesis by (simp only: x_def)
qed

lemma round_double_of_int: "\<bar>k\<bar> < 2 ^ 53 \<Longrightarrow> round_double (of_int k) = Fin (of_int k)"
  unfolding round_double_def by (rule round_binary_of_int) simp_all

lemma round_float32_of_int: "\<bar>k\<bar> < 2 ^ 24 \<Longrightarrow> round_float32 (of_int k) = Fin (of_int k)"
  unfolding round_float32_def by (rule round_binary_of_int) simp_all

lemma round_double_numeral:
  "(numeral n :: int) < 2 ^ 53 \<Longrightarrow> round_double (numeral n) = Fin (numeral n)"
  using round_double_of_int[of "numeral n"] by simp

lemma round_double_neg_numeral:
  "(numeral n :: int) < 2 ^ 53 \<Longrightarrow> round_double (- numeral n) = Fin (- numeral n)"
  using round_double_of_int[of "- numeral n"] by simp

lemma round_double_0: "round_double 0 = Fin 0"
  by (simp add: round_double_def round_binary_def)

lemma round_double_1: "round_double 1 = Fin 1"
  using round_double_of_int[of 1] by simp

lemma round_double_neg_1: "round_double (- 1) = Fin (- 1)"
  using round_double_of_int[of "- 1"] by simp

lemmas round_double_int = round_double_0 round_double_1 round_double_neg_1
  round_double_numeral round_double_neg_numeral

lemma round_float32_numeral:
  "(numeral n :: int) < 2 ^ 24 \<Longrightarrow> round_float32 (numeral n) = Fin (numeral n)"
  using round_float32_of_int[of "numeral n"] by simp

lemma round_float32_neg_numeral:
  "(numeral n :: int) < 2 ^ 24 \<Longrightarrow> round_float32 (- numeral n) = Fin (- numeral n)"
  using round_float32_of_int[of "- numeral n"] by simp

lemma round_float32_0: "round_float32 0 = Fin 0"
  by (simp add: round_float32_def round_binary_def)

lemma round_float32_1: "round_float32 1 = Fin 1"
  using round_float32_of_int[of 1] by simp

lemma round_float32_neg_1: "round_float32 (- 1) = Fin (- 1)"
  using round_float32_of_int[of "- 1"] by simp

lemmas round_float32_int = round_float32_0 round_float32_1 round_float32_neg_1
  round_float32_numeral round_float32_neg_numeral

text \<open>The definitions a concrete call unfolds to.\<close>

lemmas rows_defs = xy_row_def two_rows_def four_rows_def tenth_rows_def falling_rows_def

lemma rows_facts: "two_rows \<noteq> []" "length two_rows = 2" "four_rows \<noteq> []" "length four_rows = 4"
  by (simp_all add: two_rows_def four_rows_def)

lemmas array_defs = js_length_def num_at_def elem_def mapi_def reduce_def slice_def
  slice_from_def rel_index_def

lemmas number_defs = js_sub_def Math_pow2_def Math_max_def Math_min_def js_or_def truthy_def
  isNaN_def js_gt_def or_default_def round_double_int

lemmas metrics_defs = calculateMetrics_def ssTotal_def ssResidual_def

lemmas train_defs = trainModel_def X_of_def y_of_def coerce_def parseFloat_def X_mean_def
  X_std_def X_normalized_def y_normalized_def mean_def std_def splitIndex_def split_data_def
  predict_switch_def linear_regression_def random_forest_def neural_network_def

section \<open>Validation of the arguments\<close>


lemma trainModel_Cons:
  "data \<noteq> [] \<Longrightarrow>
   \<exists>Xm Xs. X_mean (X_of L data features) = Inr Xm \<and> X_std (X_of L data features) = Inr Xs \<and>
     trainModel L data target features mt splitRatio hp =
      (let y = y_of L data target;
           Xn = X_normalized (X_of L data features) Xm Xs;
           k = splitIndex data splitRatio
       in case predict_switch L mt features hp (slice Xn (Fin 0) k)
                 (slice (y_normalized y) (Fin 0) k) (slice_from Xn k) (std y) (mean y) of
            Inl e \<Rightarrow> Inl e
          | Inr preds \<Rightarrow>
              Inr \<lparr>modelType = mt, metrics = calculateMetrics (slice_from y k) preds,
                   predictions = preds, actualValues = slice_from y k\<rparr>)"
  by (cases data)
    (simp_all add: trainModel_def X_of_def X_mean_def X_std_def split_data_def Let_def
      cong: sum.case_cong)




section \<open>The model type that no case matches\<close>

lemma fl_add_NaN_right [simp]: "fl_add rnd x NaN = NaN"
  by (cases x) simp_all

lemma fl_mul_NaN_right [simp]: "fl_mul rnd x NaN = NaN"
  by (cases x) simp_all

lemma fl_div_NaN_right [simp]: "fl_div rnd x NaN = NaN"
  by (cases x) simp_all

lemma js_sub_NaN [simp]: "js_sub x NaN = NaN" "js_sub NaN y = NaN"
  by (simp_all add: js_sub_def)

lemma Math_pow2_NaN [simp]: "Math_pow2 NaN = NaN"
  by (simp add: Math_pow2_def)

lemma Math_minmax_NaN [simp]:
  "Math_min x NaN = NaN" "Math_min NaN y = NaN" "Math_max x NaN = NaN" "Math_max NaN y = NaN"
  by (simp_all add: Math_min_def Math_max_def)

lemma reduce_from_NaN:
  "(\<And>v k. f NaN v k = NaN) \<Longrightarrow> reduce_from i f NaN vs = NaN"
  by (induction vs arbitrary: i) simp_all

lemma reduce_NaN_step:
  assumes "vs \<noteq> []" and "\<And>acc v k. f acc v k = NaN"
  shows "reduce f init vs = NaN"
proof (cases vs)
  case Nil
  with assms(1) show ?thesis by simp
next
  case (Cons v ws)
  then show ?thesis by (simp add: reduce_def assms(2) reduce_from_NaN)
qed

lemma calculateMetrics_no_predictions:
  assumes "actual \<noteq> []"
  shows "calculateMetrics actual [] = \<lparr>mse = NaN, rmse = NaN, r2 = NaN, mae = NaN\<rparr>"
proof -
  have a: "reduce (\<lambda>sum val i. js_add sum (Math_pow2 (js_sub val (num_at [] i)))) (Fin 0) actual = NaN"
    by (rule reduce_NaN_step[OF assms]) (simp add: num_at_def)
  have b: "reduce (\<lambda>sum val i. js_add sum (Math_abs (js_sub val (num_at [] i)))) (Fin 0) actual = NaN"
    by (rule reduce_NaN_step[OF assms]) (simp add: num_at_def)
  show ?thesis
    by (simp add: calculateMetrics_def ssResidual_def a b Let_def)
qed

text \<open>
  C2, as the code has it. The \<open>switch\<close> has no \<open>default\<close> case and nothing raises a
  \<open>ConfigurationError\<close>: with a model type that is none of the three tags (and at least
  one row) the call returns a result that carries the unknown tag, no predictions, and
  the test targets. The metrics are computed against the missing predictions, so they are
  all NaN as soon as the test partition has a row.
\<close>

theorem trainModel_unrecognized_modelType:
  assumes "mt \<noteq> ''linear-regression''" "mt \<noteq> ''random-forest''" "mt \<noteq> ''neural-network''"
    and "data \<noteq> []"
  shows "let yt = slice_from (y_of L data target) (splitIndex data splitRatio)
         in trainModel L data target features mt splitRatio hp =
              Inr \<lparr>modelType = mt, metrics = calculateMetrics yt [], predictions = [],
                   actualValues = yt\<rparr> \<and>
            (yt \<noteq> [] \<longrightarrow>
               calculateMetrics yt [] = \<lparr>mse = NaN, rmse = NaN, r2 = NaN, mae = NaN\<rparr>)"
proof -
  from trainModel_Cons[OF assms(4), of L features target mt splitRatio hp]
  show ?thesis
    using assms(1-3)
    by (auto simp: Let_def predict_switch_def split_data_def calculateMetrics_no_predictions)
qed

theorem trainModel_unrecognized_modelType_witness:
  "''gradient-boosting'' \<noteq> ''linear-regression'' \<and> ''gradient-boosting'' \<noteq> ''random-forest'' \<and>
   ''gradient-boosting'' \<noteq> ''neural-network'' \<and> two_rows \<noteq> [] \<and>
   slice_from (y_of zero_libs two_rows ''y'')
     (splitIndex two_rows (Fin (1 / 2))) = [Fin 4] \<and>
   trainModel zero_libs two_rows ''y'' [''x''] ''gradient-boosting'' (Fin (1 / 2))
     no_hyperparameters =
   Inr \<lparr>modelType = ''gradient-boosting'',
        metrics = \<lparr>mse = NaN, rmse = NaN, r2 = NaN, mae = NaN\<rparr>,
        predictions = [], actualValues = [Fin 4]\<rparr>"
proof -
  have yt: "slice_from (y_of zero_libs two_rows ''y'')
              (splitIndex two_rows (Fin (1 / 2))) = [Fin 4]"
    by (simp add: train_defs array_defs number_defs rows_defs Let_def)
  show ?thesis
    using trainModel_unrecognized_modelType[of "''gradient-boosting''"
        two_rows zero_libs "''y''" "Fin (1 / 2)" "[''x'']" no_hyperparameters]
    by (simp add: yt Let_def rows_facts)
qed

text \<open>
  C2 as stated fails: the tag \<open>svm\<close> is none of the three backends, and the call returns
  a result instead of failing with a \<open>ConfigurationError\<close>.
\<close>

theorem trainModel_unrecognized_modelType_counterexample:
  "trainModel zero_libs two_rows ''y'' [''x''] ''svm'' (Fin (1 / 2))
     no_hyperparameters \<noteq> Inl ConfigurationError \<and>
   trainModel zero_libs two_rows ''y'' [''x''] ''svm'' (Fin (1 / 2))
     no_hyperparameters =
   Inr \<lparr>modelType = ''svm'', metrics = \<lparr>mse = NaN, rmse = NaN, r2 = NaN, mae = NaN\<rparr>,
        predictions = [], actualValues = [Fin 4]\<rparr>"
  by (simp add: train_defs array_defs number_defs metrics_defs zero_libs_def rows_defs Let_def)

section \<open>The metrics\<close>

text \<open>
  C3, at the input where the code leaves the interval. The actual values are all 5, so
  \<open>SS_total\<close> is 0, and the predictions are exact, so \<open>SS_residual\<close> is 0 too: the
  quotient is \<open>0 / 0\<close>, which is NaN, and \<open>Math.min\<close> and \<open>Math.max\<close> hand NaN
  on. The clamp bounds every other value, but \<open>r2\<close> is NaN here, neither the 0 of the
  degenerate case nor any number of \<open>[0, 1]\<close>.
\<close>

theorem calculateMetrics_r2_not_clamped:
  "calculateMetrics [Fin 5, Fin 5] [Fin 5, Fin 5] =
     \<lparr>mse = Fin 0, rmse = Fin 0, r2 = NaN, mae = Fin 0\<rparr>"
  by (simp add: array_defs number_defs metrics_defs Let_def)

text \<open>
  Apart from NaN the clamp does hold: \<open>r2\<close> is NaN or a number of \<open>[0, 1]\<close>, and it
  is NaN exactly when the value handed to the clamp is.
\<close>

lemma clamp_NaN_iff: "Math_max (Fin 0) (Math_min (Fin 1) z) = NaN \<longleftrightarrow> z = NaN"
  by (cases z) (simp_all add: Math_max_def Math_min_def)

lemma clamp_in_unit_interval:
  "z \<noteq> NaN \<Longrightarrow> \<exists>a. Math_max (Fin 0) (Math_min (Fin 1) z) = Fin a \<and> 0 \<le> a \<and> a \<le> 1"
  by (cases z) (auto simp: Math_max_def Math_min_def)

lemma r2_clamped_or_NaN:
  "r2 (calculateMetrics actual predicted) = NaN \<or>
   (\<exists>a. r2 (calculateMetrics actual predicted) = Fin a \<and> 0 \<le> a \<and> a \<le> 1)"
  using clamp_in_unit_interval[of "js_sub (Fin 1)
      (js_div (ssResidual actual predicted) (ssTotal actual))"]
    clamp_NaN_iff[of "js_sub (Fin 1) (js_div (ssResidual actual predicted) (ssTotal actual))"]
  by (auto simp: calculateMetrics_def Let_def)

lemma round_half_even_nonneg: "0 \<le> x \<Longrightarrow> 0 \<le> round_half_even x"
  by (auto simp: round_half_even_def Let_def)

lemma round_binary_not_NaN [simp]: "round_binary p emin emax x \<noteq> NaN"
  by (simp add: round_binary_def Let_def)

lemma round_double_not_NaN [simp]: "round_double x \<noteq> NaN"
  by (simp add: round_double_def)

lemma round_binary_nonneg: "0 \<le> x \<Longrightarrow> nonneg_num (round_binary p emin emax x)"
  by (auto simp: round_binary_def Let_def round_half_even_nonneg)

lemma round_double_nonneg: "0 \<le> x \<Longrightarrow> nonneg_num (round_double x)"
  by (simp add: round_double_def round_binary_nonneg)

lemma nonneg_num_not_NaN: "nonneg_num x \<Longrightarrow> x \<noteq> NaN"
  by (cases x) simp_all

lemma js_sub_self: "js_sub (Fin a) (Fin a) = Fin 0"
  by (simp add: js_sub_def round_double_0)

lemma Math_pow2_0: "Math_pow2 (Fin 0) = Fin 0"
  by (simp add: Math_pow2_def round_double_0)

lemma js_add_0_0: "js_add (Fin 0) (Fin 0) = Fin 0"
  by (simp add: round_double_0)

lemma reduce_from_zero:
  "(\<And>j. j < length vs \<Longrightarrow> f (Fin 0) (vs ! j) (i + j) = Fin 0) \<Longrightarrow>
   reduce_from i f (Fin 0) vs = Fin 0"
proof (induction vs arbitrary: i)
  case Nil
  then show ?case by simp
next
  case (Cons v vs)
  have "f (Fin 0) v i = Fin 0" using Cons.prems[of 0] by simp
  moreover have "reduce_from (Suc i) f (Fin 0) vs = Fin 0"
  proof (rule Cons.IH)
    fix j assume "j < length vs"
    then show "f (Fin 0) (vs ! j) (Suc i + j) = Fin 0" using Cons.prems[of "Suc j"] by simp
  qed
  ultimately show ?case by simp
qed

lemma is_finite_nth: "list_all is_finite vs \<Longrightarrow> j < length vs \<Longrightarrow> \<exists>a. vs ! j = Fin a"
  by (metis is_finite.elims(2) list_all_length)

lemma squared_error_zero:
  assumes "list_all is_finite actual"
  shows "reduce (\<lambda>sum val i. js_add sum (Math_pow2 (js_sub val (num_at actual i)))) (Fin 0) actual
           = Fin 0"
  unfolding reduce_def
proof (rule reduce_from_zero)
  fix j assume j: "j < length actual"
  with assms obtain a where "actual ! j = Fin a" using is_finite_nth by blast
  with j show "js_add (Fin 0) (Math_pow2 (js_sub (actual ! j) (num_at actual (0 + j)))) = Fin 0"
    by (simp add: num_at_def js_sub_self Math_pow2_0 round_double_0)
qed

lemma absolute_error_zero:
  assumes "list_all is_finite actual"
  shows "reduce (\<lambda>sum val i. js_add sum (Math_abs (js_sub val (num_at actual i)))) (Fin 0) actual
           = Fin 0"
  unfolding reduce_def
proof (rule reduce_from_zero)
  fix j assume j: "j < length actual"
  with assms obtain a where "actual ! j = Fin a" using is_finite_nth by blast
  with j show "js_add (Fin 0) (Math_abs (js_sub (actual ! j) (num_at actual (0 + j)))) = Fin 0"
    by (simp add: num_at_def js_sub_self round_double_0)
qed

text \<open>A sum of finite numbers can overflow to an infinity, but it is never NaN.\<close>

lemma js_add_finite_not_NaN: "acc \<noteq> NaN \<Longrightarrow> js_add acc (Fin a) \<noteq> NaN"
  by (cases acc) simp_all

lemma sum_not_NaN:
  "list_all is_finite vs \<Longrightarrow> acc \<noteq> NaN \<Longrightarrow>
   reduce_from i (\<lambda>sum val k. js_add sum val) acc vs \<noteq> NaN"
proof (induction vs arbitrary: acc i)
  case Nil
  then show ?case by simp
next
  case (Cons v vs)
  from Cons.prems(1) obtain a where v: "v = Fin a" by (cases v) simp_all
  have "js_add acc v \<noteq> NaN" using Cons.prems(2) v by (simp add: js_add_finite_not_NaN)
  then show ?case using Cons.IH Cons.prems(1) by simp
qed

lemma js_div_length_not_NaN: "s \<noteq> NaN \<Longrightarrow> vs \<noteq> [] \<Longrightarrow> js_div s (js_length vs) \<noteq> NaN"
  by (cases s) (simp_all add: js_length_def)

lemma js_sub_finite_not_NaN: "m \<noteq> NaN \<Longrightarrow> js_sub (Fin a) m \<noteq> NaN"
  by (cases m) (simp_all add: js_sub_def)

lemma Math_pow2_nonneg: "w \<noteq> NaN \<Longrightarrow> nonneg_num (Math_pow2 w)"
  by (cases w) (simp_all add: Math_pow2_def round_double_nonneg)

lemma js_add_nonneg: "nonneg_num x \<Longrightarrow> nonneg_num y \<Longrightarrow> nonneg_num (js_add x y)"
  by (cases x; cases y) (simp_all add: round_double_nonneg)

lemma sum_squares_nonneg:
  "list_all is_finite vs \<Longrightarrow> m \<noteq> NaN \<Longrightarrow> nonneg_num acc \<Longrightarrow>
   nonneg_num (reduce_from i (\<lambda>sum val k. js_add sum (Math_pow2 (js_sub val m))) acc vs)"
proof (induction vs arbitrary: acc i)
  case Nil
  then show ?case by simp
next
  case (Cons v vs)
  from Cons.prems(1) obtain a where v: "v = Fin a" by (cases v) simp_all
  have "nonneg_num (js_add acc (Math_pow2 (js_sub v m)))"
    using Cons.prems(2,3) v by (simp add: js_add_nonneg Math_pow2_nonneg js_sub_finite_not_NaN)
  then show ?case using Cons.IH Cons.prems(1,2) by simp
qed

lemma ssTotal_nonneg:
  assumes "actual \<noteq> []" "list_all is_finite actual"
  shows "nonneg_num (ssTotal actual)"
proof -
  have "reduce (\<lambda>sum val i. js_add sum val) (Fin 0) actual \<noteq> NaN"
    unfolding reduce_def using assms(2) by (rule sum_not_NaN) simp
  then have "js_div (reduce (\<lambda>sum val i. js_add sum val) (Fin 0) actual) (js_length actual) \<noteq> NaN"
    using assms(1) by (rule js_div_length_not_NaN)
  then show ?thesis
    unfolding ssTotal_def Let_def reduce_def
    using assms(2) by (intro sum_squares_nonneg) simp_all
qed

lemma js_div_zero_nonneg:
  "nonneg_num t \<Longrightarrow> t \<noteq> Fin 0 \<Longrightarrow> js_div (Fin 0) t = Fin 0"
  by (cases t) (simp_all add: round_double_0)

text \<open>
  C4, as the code has it. When the predictions equal the actual values, element by
  element, on a test partition that is not empty and holds finite values, \<open>mse\<close>,
  \<open>rmse\<close> and \<open>mae\<close> are 0, and \<open>r2\<close> is 1 provided the \<open>SS_total\<close> that
  \<open>calculateMetrics\<close> computes is not 0.
\<close>

theorem calculateMetrics_perfect:
  assumes "actual \<noteq> []" "list_all is_finite actual"
  shows "mse (calculateMetrics actual actual) = Fin 0 \<and>
         rmse (calculateMetrics actual actual) = Fin 0 \<and>
         mae (calculateMetrics actual actual) = Fin 0 \<and>
         (ssTotal actual \<noteq> Fin 0 \<longrightarrow> r2 (calculateMetrics actual actual) = Fin 1)"
proof -
  have n: "js_length actual = Fin (real (length actual))" "real (length actual) \<noteq> 0"
    using assms(1) by (simp_all add: js_length_def)
  have mse0: "mse (calculateMetrics actual actual) = Fin 0"
    using n by (simp add: calculateMetrics_def Let_def squared_error_zero[OF assms(2)] round_double_0)
  have rmse0: "rmse (calculateMetrics actual actual) = Fin 0"
    using n by (simp add: calculateMetrics_def Let_def squared_error_zero[OF assms(2)] round_double_0)
  have mae0: "mae (calculateMetrics actual actual) = Fin 0"
    using n by (simp add: calculateMetrics_def Let_def absolute_error_zero[OF assms(2)] round_double_0)
  have r: "r2 (calculateMetrics actual actual) = Fin 1" if "ssTotal actual \<noteq> Fin 0"
  proof -
    have "js_div (Fin 0) (ssTotal actual) = Fin 0"
      using ssTotal_nonneg[OF assms] that by (rule js_div_zero_nonneg)
    moreover have "ssResidual actual actual = Fin 0"
      by (simp add: ssResidual_def squared_error_zero[OF assms(2)])
    moreover have "r2 (calculateMetrics actual actual) =
        Math_max (Fin 0) (Math_min (Fin 1)
          (js_sub (Fin 1) (js_div (ssResidual actual actual) (ssTotal actual))))"
      by (simp add: calculateMetrics_def Let_def)
    ultimately show ?thesis
      by (simp add: js_sub_def round_double_1 Math_min_def Math_max_def)
  qed
  show ?thesis using mse0 rmse0 mae0 r by blast
qed

theorem calculateMetrics_perfect_witness:
  "[Fin 1, Fin 3] \<noteq> [] \<and> list_all is_finite [Fin 1, Fin 3] \<and> ssTotal [Fin 1, Fin 3] \<noteq> Fin 0 \<and>
   mse (calculateMetrics [Fin 1, Fin 3] [Fin 1, Fin 3]) = Fin 0 \<and>
   rmse (calculateMetrics [Fin 1, Fin 3] [Fin 1, Fin 3]) = Fin 0 \<and>
   mae (calculateMetrics [Fin 1, Fin 3] [Fin 1, Fin 3]) = Fin 0 \<and>
   r2 (calculateMetrics [Fin 1, Fin 3] [Fin 1, Fin 3]) = Fin 1"
proof -
  have t: "ssTotal [Fin 1, Fin 3] \<noteq> Fin 0"
    by (simp add: array_defs number_defs metrics_defs Let_def)
  show ?thesis
    using t calculateMetrics_perfect[of "[Fin 1, Fin 3]"] by simp
qed

text \<open>
  C4 as stated fails on a test partition of one row: the prediction is exact, and \<open>r2\<close>
  is NaN, not 1.
\<close>

theorem calculateMetrics_perfect_counterexample:
  "r2 (calculateMetrics [Fin 4] [Fin 4]) \<noteq> Fin 1 \<and>
   calculateMetrics [Fin 4] [Fin 4] = \<lparr>mse = Fin 0, rmse = Fin 0, r2 = NaN, mae = Fin 0\<rparr>"
  by (simp add: array_defs number_defs metrics_defs Let_def)

section \<open>The linear backend\<close>









section \<open>The split by position\<close>

lemma powr_powi: "(2::real) powr (of_int e) = 2 powi e"
  by (simp add: powr_real_of_int power_int_def power_inverse del: inverse_eq_divide_numeral)

lemma powi_floor_log2_le: "0 < x \<Longrightarrow> 2 powi \<lfloor>log 2 x\<rfloor> \<le> x"
  using floor_log_eq_powr_iff[of x 2 "\<lfloor>log 2 x\<rfloor>"] by (simp add: powr_powi)

lemma round_half_even_le: "of_int (round_half_even y) \<le> y + 1"
  by (auto simp: round_half_even_def Let_def) linarith+

lemma round_double_finite:
  assumes "0 \<le> x" "x < 2 ^ 1023"
  shows "\<exists>a. 0 \<le> a \<and> round_double x = Fin a"
proof (cases "x = 0")
  case True
  then show ?thesis by (simp add: round_double_0)
next
  case False
  with assms have pos: "0 < x" by simp
  define e where "e = max \<lfloor>log 2 \<bar>x\<bar>\<rfloor> (- 1022)"
  define u :: real where "u = 2 powi (e - 52)"
  define m where "m = round_half_even (x / u)"
  have upos: "0 < u" by (simp add: u_def)
  have ule: "u \<le> max x 1"
  proof (cases "- 1022 \<le> \<lfloor>log 2 \<bar>x\<bar>\<rfloor>")
    case True
    then have "e = \<lfloor>log 2 x\<rfloor>" using pos by (simp add: e_def)
    then have "u \<le> 2 powi \<lfloor>log 2 x\<rfloor>"
      unfolding u_def by (intro power_int_increasing) simp_all
    also have "\<dots> \<le> x" using pos by (rule powi_floor_log2_le)
    finally show ?thesis by simp
  next
    case False
    then have "e = - 1022" by (simp add: e_def)
    then have "u \<le> 2 powi 0" unfolding u_def by (intro power_int_increasing) simp_all
    then show ?thesis by simp
  qed
  have m0: "0 \<le> m" unfolding m_def using pos upos by (intro round_half_even_nonneg) simp
  have "of_int m \<le> x / u + 1" unfolding m_def by (rule round_half_even_le)
  then have "of_int m * u \<le> (x / u + 1) * u" using upos by (simp only: mult_le_cancel_right_pos)
  also have "\<dots> = x + u" using upos by (simp add: field_simps)
  also have "\<dots> < 2 ^ 1023 + 2 ^ 1023" using assms(2) ule by (intro add_strict_mono) auto
  finally have lt: "of_int m * u < 2 powi 1024" by simp
  have r0: "0 \<le> of_int m * u" using m0 upos by simp
  have "round_double x =
          (if 2 powi 1024 \<le> \<bar>of_int m * u\<bar> then (if 0 < x then PInf else NInf)
           else Fin (of_int m * u))"
    using False by (simp add: round_double_def round_binary_def Let_def e_def u_def m_def)
  also have "\<dots> = Fin (of_int m * u)"
    using lt r0 by (simp only: abs_of_nonneg if_False not_le[symmetric])
  finally show ?thesis using r0 by blast
qed

lemma slice_to_nat: "slice xs (Fin 0) (Fin (real k)) = take k xs"
  by (simp add: slice_def rel_index_def Let_def min_def) 

lemma slice_from_nat: "slice_from xs (Fin (real k)) = drop k xs"
  by (simp add: slice_from_def rel_index_def Let_def min_def)

lemma splitIndex_nat:
  assumes "0 \<le> r" "real (length data) * r < 2 ^ 1023"
  shows "\<exists>a. js_mul (js_length data) (Fin r) = Fin a \<and>
             splitIndex data (Fin r) = Fin (real (nat \<lfloor>a\<rfloor>))"
proof -
  have "0 \<le> real (length data) * r" using assms(1) by simp
  from round_double_finite[OF this assms(2)]
  obtain a where a: "0 \<le> a" "round_double (real (length data) * r) = Fin a" by blast
  then have "splitIndex data (Fin r) = Fin (of_int \<lfloor>a\<rfloor>)"
    by (simp add: splitIndex_def js_length_def)
  moreover have "of_int \<lfloor>a\<rfloor> = real (nat \<lfloor>a\<rfloor>)" using a(1) by simp
  ultimately show ?thesis using a(2) by (simp add: js_length_def)
qed

text \<open>
  C7. For a split ratio \<open>r\<close> that is not negative (the product with the row count not
  overflowing), \<open>splitIndex\<close> is a natural number \<open>k\<close>, the floor of the product
  \<open>data.length * splitRatio\<close> as the multiplication gives it.
  The backend is given the first \<open>k\<close> normalised rows and targets to train on and the
  rows from \<open>k\<close> on to predict; the metrics are computed against, and \<open>actualValues\<close>
  is, the coerced target cells of the rows from \<open>k\<close> on, which are not normalised.
\<close>

theorem trainModel_splits_by_position:
  assumes "data \<noteq> []" "0 \<le> r" "real (length data) * r < 2 ^ 1023"
  shows "\<exists>a k Xm Xs.
     js_mul (js_length data) (Fin r) = Fin a \<and> k = nat \<lfloor>a\<rfloor> \<and>
     splitIndex data (Fin r) = Fin (real k) \<and>
     X_mean (X_of L data features) = Inr Xm \<and> X_std (X_of L data features) = Inr Xs \<and>
     trainModel L data target features mt (Fin r) hp =
       (let Xn = X_normalized (X_of L data features) Xm Xs; y = y_of L data target
        in case predict_switch L mt features hp (take k Xn) (take k (y_normalized y))
                  (drop k Xn) (std y) (mean y) of
             Inl e \<Rightarrow> Inl e
           | Inr preds \<Rightarrow>
               Inr \<lparr>modelType = mt, metrics = calculateMetrics (drop k y) preds,
                    predictions = preds,
                    actualValues = map (\<lambda>row. coerce L (row target)) (drop k data)\<rparr>)"
proof -
  from splitIndex_nat[OF assms(2,3)]
  obtain a k where a: "js_mul (js_length data) (Fin r) = Fin a" "k = nat \<lfloor>a\<rfloor>"
    and k: "splitIndex data (Fin r) = Fin (real k)"
    by blast
  from trainModel_Cons[OF assms(1), of L features target mt "Fin r" hp]
  obtain Xm Xs where m: "X_mean (X_of L data features) = Inr Xm"
    and s: "X_std (X_of L data features) = Inr Xs"
    and t: "trainModel L data target features mt (Fin r) hp =
      (let y = y_of L data target;
           Xn = X_normalized (X_of L data features) Xm Xs;
           k = splitIndex data (Fin r)
       in case predict_switch L mt features hp (slice Xn (Fin 0) k)
                 (slice (y_normalized y) (Fin 0) k) (slice_from Xn k) (std y) (mean y) of
            Inl e \<Rightarrow> Inl e
          | Inr preds \<Rightarrow>
              Inr \<lparr>modelType = mt, metrics = calculateMetrics (slice_from y k) preds,
                   predictions = preds, actualValues = slice_from y k\<rparr>)"
    by blast
  have y: "drop k (y_of L data target) = map (\<lambda>row. coerce L (row target)) (drop k data)"
    by (simp add: y_of_def drop_map)
  have "trainModel L data target features mt (Fin r) hp =
       (let Xn = X_normalized (X_of L data features) Xm Xs; y = y_of L data target
        in case predict_switch L mt features hp (take k Xn) (take k (y_normalized y))
                  (drop k Xn) (std y) (mean y) of
             Inl e \<Rightarrow> Inl e
           | Inr preds \<Rightarrow>
               Inr \<lparr>modelType = mt, metrics = calculateMetrics (drop k y) preds,
                    predictions = preds,
                    actualValues = map (\<lambda>row. coerce L (row target)) (drop k data)\<rparr>)"
    unfolding t by (simp add: Let_def k slice_to_nat slice_from_nat y cong: sum.case_cong)
  with a k m s show ?thesis by blast
qed

theorem trainModel_splits_by_position_witness:
  "four_rows \<noteq> [] \<and> (0::real) \<le> 1 / 2 \<and>
   real (length four_rows) * (1 / 2) < 2 ^ 1023 \<and>
   splitIndex four_rows (Fin (1 / 2)) = Fin 2 \<and>
   trainModel zero_libs four_rows ''y'' [''x'']
     ''linear-regression'' (Fin (1 / 2)) no_hyperparameters =
   Inr \<lparr>modelType = ''linear-regression'',
        metrics = \<lparr>mse = Fin 1, rmse = Fin 1, r2 = Fin 0, mae = Fin 1\<rparr>,
        predictions = [Fin 3, Fin 3], actualValues = [Fin 2, Fin 4]\<rparr>"
  using trainModel_splits_by_position[of four_rows
      "1 / 2" zero_libs "[''x'']" "''y''" "''linear-regression''" no_hyperparameters]
  by (simp add: train_defs array_defs number_defs metrics_defs zero_libs_def rows_defs Let_def)

section \<open>The empty test partition\<close>





section \<open>Roundings, checked one at a time\<close>

text \<open>
  A rounding is checked from its exponent \<open>e\<close> and its integer significand \<open>m\<close>: the
  argument lies between \<open>2 powi e\<close> and \<open>2 powi (e + 1)\<close>, and \<open>m\<close> is what the
  argument, in units of \<open>2 powi (e - 52)\<close>, rounds to. For a square root both are
  checked on the squares.
\<close>

lemma round_double_eqI:
  assumes "2 powi e \<le> \<bar>x\<bar>" "\<bar>x\<bar> < 2 powi (e + 1)" "- 1022 \<le> e"
    and "round_half_even (x / 2 powi (e - 52)) = m"
    and "y = of_int m * 2 powi (e - 52)" "\<bar>y\<bar> < 2 ^ 1024"
  shows "round_double x = Fin y"
proof -
  have "round_binary 53 (- 1022) 1024 x = Fin (of_int m * 2 powi (e - (53 - 1)))"
    using assms by (intro round_binary_eqI[where ?e0.0 = e]) simp_all
  then show ?thesis by (simp add: round_double_def assms(5))
qed

lemma round_half_even_eqI:
  assumes "of_int m - 1 / 2 < y" "y < of_int m + 1 / 2"
  shows "round_half_even y = m"
proof -
  have "\<lfloor>y\<rfloor> = m \<or> \<lfloor>y\<rfloor> = m - 1" using assms by linarith
  then show ?thesis
  proof
    assume "\<lfloor>y\<rfloor> = m"
    then show ?thesis using assms by (simp add: round_half_even_def Let_def)
  next
    assume "\<lfloor>y\<rfloor> = m - 1"
    then show ?thesis using assms by (simp add: round_half_even_def Let_def)
  qed
qed

lemma Math_sqrt_eqI:
  assumes "(2 powi e)\<^sup>2 \<le> q" "q < (2 powi (e + 1))\<^sup>2" "- 1022 \<le> e"
    and "((of_int m - 1 / 2) * 2 powi (e - 52))\<^sup>2 < q"
    and "q < ((of_int m + 1 / 2) * 2 powi (e - 52))\<^sup>2" "0 \<le> m"
    and "y = of_int m * 2 powi (e - 52)" "\<bar>y\<bar> < 2 ^ 1024"
  shows "Math_sqrt (Fin q) = Fin y"
proof -
  have q0: "0 \<le> q" using assms(1) by (meson order_trans zero_le_power2)
  have u: "(0::real) < 2 powi (e - 52)" by simp
  have lo: "2 powi e \<le> sqrt q" using assms(1) by (rule real_le_rsqrt)
  have hi: "sqrt q < 2 powi (e + 1)" using assms(2) by (intro real_less_lsqrt) simp_all
  have a: "(of_int m - 1 / 2) * 2 powi (e - 52) < sqrt q"
    using assms(4) by (rule real_less_rsqrt)
  have b: "sqrt q < (of_int m + 1 / 2) * 2 powi (e - 52)"
    using assms(5,6) by (intro real_less_lsqrt) simp_all
  have "round_half_even (sqrt q / 2 powi (e - 52)) = m"
    using a b u by (intro round_half_even_eqI) (simp_all add: field_simps)
  then have "round_double (sqrt q) = Fin y"
    using lo hi assms(3,7,8) q0 by (intro round_double_eqI[where e = e and m = m]) simp_all
  then show ?thesis using q0 by simp
qed

text \<open>
  The roundings met on the way from the column \<open>[0.1, 0.1, 0.1]\<close> to its mean, its
  deviation and its correlation with \<open>[1, 2, 3]\<close>. The literal \<open>0.1\<close> is the double
  \<open>3602879701896397 / 2 ^ 55\<close>; the sum of three of them is a tie that rounds up to the even
  significand, and a third of that sum is one unit in the last place above \<open>0.1\<close>.
\<close>

lemma round_double_tenth_1:
  "round_double (1 / 10) = Fin (3602879701896397 / 36028797018963968)"
  by (rule round_double_eqI[where e = "-4" and m = "7205759403792794"]) (simp_all add: round_half_even_def)

lemma round_double_tenth_2:
  "round_double (3602879701896397 / 36028797018963968) = Fin (3602879701896397 / 36028797018963968)"
  by (rule round_double_eqI[where e = "-4" and m = "7205759403792794"]) (simp_all add: round_half_even_def)

lemma round_double_tenth_3:
  "round_double (3602879701896397 / 18014398509481984) = Fin (3602879701896397 / 18014398509481984)"
  by (rule round_double_eqI[where e = "-3" and m = "7205759403792794"]) (simp_all add: round_half_even_def)

lemma round_double_tenth_4:
  "round_double (10808639105689191 / 36028797018963968) = Fin (1351079888211149 / 4503599627370496)"
  by (rule round_double_eqI[where e = "-2" and m = "5404319552844596"]) (simp_all add: round_half_even_def)

lemma round_double_tenth_5:
  "round_double (1351079888211149 / 13510798882111488) = Fin (7205759403792795 / 72057594037927936)"
  by (rule round_double_eqI[where e = "-4" and m = "7205759403792795"]) (simp_all add: round_half_even_def)

lemma round_double_tenth_6:
  "round_double (- (1 / 72057594037927936)) = Fin (- (1 / 72057594037927936))"
  by (rule round_double_eqI[where e = "-56" and m = "-4503599627370496"]) (simp_all add: round_half_even_def)

lemma round_double_tenth_7:
  "round_double (1 / 5192296858534827628530496329220096) = Fin (1 / 5192296858534827628530496329220096)"
  by (rule round_double_eqI[where e = "-112" and m = "4503599627370496"]) (simp_all add: round_half_even_def)

lemma round_double_tenth_8:
  "round_double (1 / 2596148429267413814265248164610048) = Fin (1 / 2596148429267413814265248164610048)"
  by (rule round_double_eqI[where e = "-111" and m = "4503599627370496"]) (simp_all add: round_half_even_def)

lemma round_double_tenth_9:
  "round_double (3 / 5192296858534827628530496329220096) = Fin (3 / 5192296858534827628530496329220096)"
  by (rule round_double_eqI[where e = "-111" and m = "6755399441055744"]) (simp_all add: round_half_even_def)

lemma round_double_tenth_10:
  "round_double (1 / 72057594037927936) = Fin (1 / 72057594037927936)"
  by (rule round_double_eqI[where e = "-56" and m = "4503599627370496"]) (simp_all add: round_half_even_def)

lemma round_double_tenth_11:
  "round_double (3 / 2596148429267413814265248164610048) = Fin (3 / 2596148429267413814265248164610048)"
  by (rule round_double_eqI[where e = "-110" and m = "6755399441055744"]) (simp_all add: round_half_even_def)

lemma Math_sqrt_tenth_1:
  "Math_sqrt (Fin (1 / 5192296858534827628530496329220096)) = Fin (1 / 72057594037927936)"
  by (rule Math_sqrt_eqI[where e = "-56" and m = "4503599627370496"]) (simp_all add: power2_eq_square)

lemma Math_sqrt_tenth_2:
  "Math_sqrt (Fin (3 / 2596148429267413814265248164610048)) = Fin (2757880273211543 / 81129638414606681695789005144064)"
  by (rule Math_sqrt_eqI[where e = "-55" and m = "5515760546423086"]) (simp_all add: power2_eq_square)

lemmas tenth_roundings = round_double_tenth_1 round_double_tenth_2 round_double_tenth_3
  round_double_tenth_4 round_double_tenth_5 round_double_tenth_6 round_double_tenth_7
  round_double_tenth_8 round_double_tenth_9 round_double_tenth_10 round_double_tenth_11
  Math_sqrt_tenth_1 Math_sqrt_tenth_2

section \<open>Normalization of a constant column\<close>

text \<open>
  C8, at an input where the code does not do what the claim says. Three rows hold the
  cell \<open>0.1\<close> in the column \<open>x\<close>. The computed mean of the column is not \<open>0.1\<close> but
  the next double above it, so the computed deviation is \<open>1 / 2 ^ 56\<close> and not 0: the
  guard \<open>X_std[i] || 1\<close> does not fire, the divisor is the deviation, and every
  normalized value of the column is \<open>-1\<close>, not 0. (No division error is raised, here or
  anywhere: a quotient by zero is an infinity or NaN.)
\<close>

theorem constant_column_normalized_to_minus_1:
  "X_of zero_libs tenth_rows [''x''] =
     [[lit (1 / 10)], [lit (1 / 10)], [lit (1 / 10)]] \<and>
   X_mean [[lit (1 / 10)], [lit (1 / 10)], [lit (1 / 10)]] = Inr [Fin (7205759403792795 / 2 ^ 56)] \<and>
   X_std [[lit (1 / 10)], [lit (1 / 10)], [lit (1 / 10)]] = Inr [Fin (1 / 2 ^ 56)] \<and>
   X_normalized [[lit (1 / 10)], [lit (1 / 10)], [lit (1 / 10)]]
     [Fin (7205759403792795 / 2 ^ 56)] [Fin (1 / 2 ^ 56)] = [[Fin (- 1)], [Fin (- 1)], [Fin (- 1)]]"
  by (simp add: train_defs array_defs number_defs rows_defs Let_def lit_def tenth_roundings
      del: Math_sqrt.simps)

section \<open>Correlation of a column without variance\<close>

lemma constant_exactD:
  assumes "constant_exact xs"
  shows "\<exists>c. xs \<noteq> [] \<and> (\<forall>v \<in> set xs. v = Fin c) \<and> mean xs = Fin c"
proof (cases xs)
  case Nil
  with assms show ?thesis by (simp add: constant_exact_def)
next
  case (Cons v rest)
  with assms obtain c where "v = Fin c" by (cases v) (simp_all add: constant_exact_def)
  with assms Cons show ?thesis
    by (auto simp: constant_exact_def list_all_iff)
qed





lemma squares_about_mean_zero:
  assumes "\<And>v. v \<in> set xs \<Longrightarrow> v = Fin c"
  shows "reduce (\<lambda>sum xi i. js_add sum (Math_pow2 (js_sub xi (Fin c)))) (Fin 0) xs = Fin 0"
  unfolding reduce_def
proof (rule reduce_from_zero)
  fix j assume "j < length xs"
  then have "xs ! j = Fin c" using assms by simp
  then show "js_add (Fin 0) (Math_pow2 (js_sub (xs ! j) (Fin c))) = Fin 0"
    by (simp add: js_sub_self Math_pow2_0 round_double_0)
qed





lemma length_mapi_from [simp]: "length (mapi_from k f xs) = length xs"
  by (induction xs arbitrary: k) simp_all







text \<open>Integer columns: the partial sums are exact, and so is the mean.\<close>

lemma sum_replicate_int:
  assumes "(int j + int m) * \<bar>k\<bar> < 2 ^ 53"
  shows "reduce_from i (\<lambda>a b i. js_add a b) (Fin (of_int (int j * k))) (replicate m (Fin (of_int k)))
           = Fin (of_int ((int j + int m) * k))"
  using assms
proof (induction m arbitrary: i j)
  case 0
  then show ?case by simp
next
  case (Suc m)
  have le: "(int j + 1) * \<bar>k\<bar> \<le> (int j + int (Suc m)) * \<bar>k\<bar>"
    by (intro mult_right_mono) simp_all
  have "\<bar>(int j + 1) * k\<bar> < 2 ^ 53"
    using le Suc.prems by (simp add: abs_mult)
  then have "round_double (of_int ((int j + 1) * k)) = Fin (of_int ((int j + 1) * k))"
    by (rule round_double_of_int)
  then have step: "js_add (Fin (of_int (int j * k))) (Fin (of_int k)) = Fin (of_int (int (Suc j) * k))"
    by (simp add: algebra_simps)
  have "int (Suc j) + int m = int j + int (Suc m)" by simp
  then have "(int (Suc j) + int m) * \<bar>k\<bar> < 2 ^ 53" using Suc.prems by (simp only:)
  from Suc.IH[OF this, of "Suc i"] show ?case
    by (simp only: replicate_Suc reduce_from.simps step) (simp add: algebra_simps)
qed

lemma constant_exact_int:
  assumes "0 < n" "int n * \<bar>k\<bar> < 2 ^ 53"
  shows "constant_exact (replicate n (Fin (of_int k)))"
proof -
  have "reduce_from 0 (\<lambda>a b i. js_add a b) (Fin (of_int (int 0 * k))) (replicate n (Fin (of_int k)))
          = Fin (of_int ((int 0 + int n) * k))"
    using assms(2) by (intro sum_replicate_int) simp
  then have s: "reduce (\<lambda>a b i. js_add a b) (Fin 0) (replicate n (Fin (of_int k)))
          = Fin (real n * of_int k)"
    by (simp add: reduce_def)
  have "\<bar>k\<bar> \<le> int n * \<bar>k\<bar>" using assms(1) by (simp add: mult_le_cancel_right1)
  then have "\<bar>k\<bar> < 2 ^ 53" using assms(2) by linarith
  then have "round_double (of_int k) = Fin (of_int k)" by (rule round_double_of_int)
  then have m: "mean (replicate n (Fin (of_int k))) = Fin (of_int k)"
    using assms(1) by (simp add: mean_def s js_length_def)
  obtain n' where n': "n = Suc n'" using assms(1) by (cases n) simp_all
  show ?thesis
    using m unfolding n' by (simp add: constant_exact_def list_all_iff)
qed

text \<open>The guarded division does its work when the computed deviation is exactly 0.\<close>

lemma std_constant_exact:
  assumes "constant_exact xs"
  shows "std xs = Fin 0"
proof -
  from constant_exactD[OF assms]
  obtain c where ne: "xs \<noteq> []" and x: "\<And>v. v \<in> set xs \<Longrightarrow> v = Fin c" and m: "mean xs = Fin c"
    by blast
  have "reduce (\<lambda>sum val i. js_add sum (Math_pow2 (js_sub val (Fin c)))) (Fin 0) xs = Fin 0"
    using x by (rule squares_about_mean_zero)
  then show ?thesis
    using ne by (simp add: std_def m Let_def js_length_def round_double_0)
qed

lemma y_normalized_constant_exact:
  assumes "constant_exact y"
  shows "y_normalized y = map (\<lambda>v. Fin 0) y"
proof -
  from constant_exactD[OF assms]
  obtain c where x: "\<And>v. v \<in> set y \<Longrightarrow> v = Fin c" and m: "mean y = Fin c"
    by blast
  have "js_div (js_sub v (Fin c)) (js_or (Fin 0) (Fin 1)) = Fin 0" if "v \<in> set y" for v
    using x[OF that] by (simp add: js_or_def truthy_def js_sub_self round_double_0)
  then show ?thesis
    unfolding y_normalized_def std_constant_exact[OF assms] m by simp
qed

section \<open>The advisor's choice of a model\<close>

lemma Math_sqrt_4: "Math_sqrt (Fin 4) = Fin 2"
  by (rule Math_sqrt_eqI[where e = 1 and m = 4503599627370496]) (simp_all add: power2_eq_square)

lemma round_double_half: "round_double (1 / 2) = Fin (1 / 2)"
  by (rule round_double_eqI[where e = "- 1" and m = 4503599627370496])
    (simp_all add: round_half_even_def)

lemma js_lt_NaN_right [simp]: "js_lt x NaN = False"
  by (cases x) simp_all

lemmas advisor_defs = getModelSuggestions_def tensor2d_def tensor1d_def to_float32_def
  calculateCorrelations_def checkNonLinearity_def calculateFeatureImportance_def
  pearsonCorrelation_def tf_dot_transpose_def tf_inner_def tf_pow2_def select_model_def
  getHyperparameters_def parseFloat_def round_float32_int

text \<open>
  C5, at an input where the code does not do what the claim says. The feature
  \<open>x = 1, 2, 3\<close> falls as the target \<open>y = 3, 2, 1\<close> rises: its Pearson correlation is
  \<open>-1\<close>. \<open>calculateCorrelations\<close> averages the correlations as they are, so its mean is
  \<open>-1\<close>, where the average of the absolute correlations is 1;
  \<open>calculateFeatureImportance\<close>, on the same column, does take the absolute value. The
  three branches and their confidences are as the claim lists them (\<open>select_model\<close>);
  the call as a whole returns the forest.
\<close>

theorem meanCorrelation_is_signed:
  "calculateCorrelations [[Fin 1], [Fin 2], [Fin 3]] [Fin 3, Fin 2, Fin 1] =
     Inr \<lparr>corr_mean = Fin (- 1), corr_max = Fin (- 1)\<rparr> \<and>
   calculateFeatureImportance [[Fin 1], [Fin 2], [Fin 3]] [Fin 3, Fin 2, Fin 1] = Inr [Fin 1] \<and>
   getModelSuggestions zero_libs
     falling_rows [''x''] ''y'' =
   Inr \<lparr>suggestion_modelType = ''random-forest'', confidence = lit (85 / 100),
        reasoning = ''Moderate complexity with potential non-linear relationships'',
        suggestion_hyperparameters =
          no_hyperparameters\<lparr>treeDepth := Some (Fin 11), numTrees := Some (Fin 110)\<rparr>\<rparr>"
proof (intro conjI)
  show "calculateCorrelations [[Fin 1], [Fin 2], [Fin 3]] [Fin 3, Fin 2, Fin 1] =
          Inr \<lparr>corr_mean = Fin (- 1), corr_max = Fin (- 1)\<rparr>"
    by (simp add: advisor_defs array_defs number_defs Let_def Math_sqrt_4 del: Math_sqrt.simps)
  show "calculateFeatureImportance [[Fin 1], [Fin 2], [Fin 3]] [Fin 3, Fin 2, Fin 1] = Inr [Fin 1]"
    by (simp add: advisor_defs array_defs number_defs Let_def Math_sqrt_4 del: Math_sqrt.simps)
  show "getModelSuggestions zero_libs
          falling_rows [''x''] ''y'' =
        Inr \<lparr>suggestion_modelType = ''random-forest'', confidence = lit (85 / 100),
             reasoning = ''Moderate complexity with potential non-linear relationships'',
             suggestion_hyperparameters =
               no_hyperparameters\<lparr>treeDepth := Some (Fin 11), numTrees := Some (Fin 110)\<rparr>\<rparr>"
    by (simp add: advisor_defs array_defs number_defs Let_def Math_sqrt_4 round_double_half
        rows_defs zero_libs_def del: Math_sqrt.simps)
qed

text \<open>
  The first branch is never taken once there are two rows. The Gram matrix, flattened,
  has \<open>n * n\<close> entries, the target has \<open>n\<close>: \<open>pearsonCorrelation\<close> reads the target
  past its end, the covariance is NaN, and so is the non-linearity, which compares false
  with every threshold.
\<close>

lemma reduce_from_hits_NaN:
  assumes "j < length vs" "\<And>acc. f acc (vs ! j) (i + j) = NaN" "\<And>v k. f NaN v k = NaN"
  shows "reduce_from i f acc vs = NaN"
  using assms(1,2)
proof (induction vs arbitrary: i j acc)
  case Nil
  then show ?case by simp
next
  case (Cons v vs)
  show ?case
  proof (cases j)
    case 0
    then have "f acc v i = NaN" using Cons.prems(2)[of acc] by simp
    then show ?thesis by (simp add: reduce_from_NaN assms(3))
  next
    case (Suc j')
    then have "j' < length vs" using Cons.prems(1) by simp
    moreover have "f a (vs ! j') (Suc i + j') = NaN" for a
      using Cons.prems(2)[of a] Suc by simp
    ultimately have "reduce_from (Suc i) f (f acc v i) vs = NaN" by (rule Cons.IH)
    then show ?thesis by simp
  qed
qed

lemma pearsonCorrelation_short_target:
  assumes "length y < length x"
  shows "pearsonCorrelation x y = NaN"
proof -
  have "reduce (\<lambda>sum xi i. js_add sum (js_mul (js_sub xi mX) (js_sub (num_at y i) mY))) (Fin 0) x
          = NaN" for mX mY
    unfolding reduce_def
    by (rule reduce_from_hits_NaN[where j = "length y"]) (simp_all add: assms num_at_def)
  then show ?thesis by (simp add: pearsonCorrelation_def Let_def)
qed

lemma length_concat_dot: "length (concat (tf_dot_transpose A B)) = length A * length B"
  by (induction A) (simp_all add: tf_dot_transpose_def)

lemma checkNonLinearity_NaN:
  assumes "length y < length X * length X"
  shows "checkNonLinearity X y = NaN"
proof -
  have "pearsonCorrelation (concat (tf_dot_transpose X X)) y = NaN"
    using assms by (intro pearsonCorrelation_short_target) (simp add: length_concat_dot)
  then show ?thesis by (simp add: checkNonLinearity_def Let_def)
qed

lemma select_model_NaN: "select_model NaN m c \<noteq> (''linear-regression'', conf, why)"
  by (simp add: select_model_def)

lemma linear_regression_never_suggested:
  assumes "2 \<le> length data" "getModelSuggestions L data features target = Inr s"
  shows "suggestion_modelType s \<noteq> ''linear-regression''"
proof -
  define X where "X = map (\<lambda>row. map (\<lambda>f. js_or (parseFloat L (row f)) (Fin 0)) features) data"
  define y where "y = map (\<lambda>row. js_or (parseFloat L (row target)) (Fin 0)) data"
  have n: "length data < length data * length data"
  proof -
    have "length data * 2 \<le> length data * length data" using assms(1) by (rule mult_le_mono2)
    moreover have "length data < length data * 2" using assms(1) by linarith
    ultimately show ?thesis by linarith
  qed
  have nl: "checkNonLinearity (map (map to_float32) X) (tensor1d y) = NaN"
    by (rule checkNonLinearity_NaN) (simp add: X_def y_def tensor1d_def n)
  have "data \<noteq> []" using assms(1) by auto
  then have X: "X \<noteq> []" by (simp add: X_def)
  from assms(2) show ?thesis
    unfolding getModelSuggestions_def X_def[symmetric] y_def[symmetric]
    by (auto simp: Let_def tensor2d_def X nl select_model_NaN
        split: sum.splits prod.splits if_splits)
qed

end
